theory Spec2Isabelle
  imports Complex_Main
begin

section \<open>JavaScript values, exceptions and effects\<close>

text \<open>
  The request body, the tool arguments and the metadata of a vector match are values
  that come out of a JSON decoder and are only cast, never checked, by the TypeScript
  source. They are modelled as JavaScript values. A number is the value of a double;
  an overflowing JSON literal decodes to an infinity.
\<close>

datatype jsnum = Finite rat | PosInf | NegInf

datatype jsval =
    JUndefined
  | JNull
  | JBool bool
  | JNum jsnum
  | JStr string
  | JArr "jsval list"
  | JObj "(string \<times> jsval) list"

text \<open>
  A thrown value: an instance of \<open>Error\<close> with its message, or anything else.
\<close>

datatype js_exn = Error string | NonError jsval

text \<open>JavaScript's ToBoolean, as used by \<open>!x\<close>, \<open>x || y\<close> and \<open>filter\<close>.\<close>

fun truthy :: "jsval \<Rightarrow> bool" where
  "truthy JUndefined = False"
| "truthy JNull = False"
| "truthy (JBool b) = b"
| "truthy (JNum n) = (n \<noteq> Finite 0)"
| "truthy (JStr s) = (s \<noteq> [])"
| "truthy (JArr xs) = True"
| "truthy (JObj kvs) = True"

text \<open>\<open>a || b\<close>\<close>

definition js_or :: "jsval \<Rightarrow> jsval \<Rightarrow> jsval" where
  "js_or a b = (if truthy a then a else b)"

text \<open>
  \<open>v.k\<close> on a value that is neither \<open>null\<close> nor \<open>undefined\<close>, for the property names
  this program reads (\<open>id\<close>, \<open>method\<close>, \<open>params\<close>, \<open>name\<close>, \<open>arguments\<close>,
  \<open>question\<close>, \<open>title\<close>, \<open>content\<close>): an object yields its own property, and no
  prototype of an object, array, string, number or boolean has a property of these names,
  so every other value yields \<open>undefined\<close>. The list of an object holds its own
  properties, one entry per key.
\<close>

fun member :: "jsval \<Rightarrow> string \<Rightarrow> jsval" where
  "member (JObj kvs) k = (case map_of kvs k of None \<Rightarrow> JUndefined | Some v \<Rightarrow> v)"
| "member v k = JUndefined"

definition nullish :: "jsval \<Rightarrow> bool" where
  "nullish v = (v = JUndefined \<or> v = JNull)"

text \<open>\<open>v?.k\<close>\<close>

definition opt_member :: "jsval \<Rightarrow> string \<Rightarrow> jsval" where
  "opt_member v k = (if nullish v then JUndefined else member v k)"

text \<open>
  What a run does besides returning: the calls of the components into each other, the
  requests sent to the two external services, and the lines written by
  \<open>console.error\<close>, in the order they happen.
\<close>

record chat_request =
  model :: string
  messages :: "(string \<times> string) list"
  temperature :: rat
  max_tokens :: nat

datatype event =
    Call_ragQuery jsval
  | Call_getRelevantContext jsval nat
  | Call_generateResponse string string
  | Call_getVectorInfo
  | Net_index_query jsval nat
  | Net_index_info
  | Net_chat_completions_create chat_request
  | Console_error string js_exn

text \<open>
  An asynchronous computation: it resolves to a value (\<open>Inr\<close>) or rejects with a thrown
  value (\<open>Inl\<close>), and leaves a trace of events.
\<close>

type_synonym 'a io = "(js_exn + 'a) \<times> event list"

definition return_io :: "'a \<Rightarrow> 'a io" where
  "return_io a = (Inr a, [])"

definition throw_io :: "js_exn \<Rightarrow> 'a io" where
  "throw_io e = (Inl e, [])"

definition emit :: "event \<Rightarrow> unit io" where
  "emit ev = (Inr (), [ev])"

text \<open>A request to an external service: the event, then the service's outcome.\<close>

definition net :: "event \<Rightarrow> js_exn + 'a \<Rightarrow> 'a io" where
  "net ev outcome = (outcome, [ev])"

definition bind_io :: "'a io \<Rightarrow> ('a \<Rightarrow> 'b io) \<Rightarrow> 'b io" where
  "bind_io m f =
     (case m of
        (Inl e, t) \<Rightarrow> (Inl e, t)
      | (Inr a, t) \<Rightarrow> (case f a of (r, t') \<Rightarrow> (r, t @ t')))"

text \<open>\<open>try { m } catch (error) { h error }\<close>\<close>

definition try_catch :: "'a io \<Rightarrow> (js_exn \<Rightarrow> 'a io) \<Rightarrow> 'a io" where
  "try_catch m h =
     (case m of
        (Inl e, t) \<Rightarrow> (case h e of (r, t') \<Rightarrow> (r, t @ t'))
      | (Inr a, t) \<Rightarrow> (Inr a, t))"

text \<open>\<open>xs.map(f)\<close> for an \<open>f\<close> that may throw: the first exception ends the loop.\<close>

fun map_io :: "('a \<Rightarrow> 'b io) \<Rightarrow> 'a list \<Rightarrow> 'b list io" where
  "map_io f [] = return_io []"
| "map_io f (x # xs) = bind_io (f x) (\<lambda>y. bind_io (map_io f xs) (\<lambda>ys. return_io (y # ys)))"

text \<open>\<open>error instanceof Error ? error.message : dflt\<close>\<close>

definition error_message :: "js_exn \<Rightarrow> string \<Rightarrow> string" where
  "error_message e dflt = (case e of Error m \<Rightarrow> m | NonError v \<Rightarrow> dflt)"

text \<open>
  The \<open>catch\<close> block that the retriever, the generator and the orchestrator share:
  \<open>console.error(label, error); throw new Error(`${prefix}${error instanceof Error ?
  error.message : "Unknown error"}`)\<close>.
\<close>

definition log_and_rethrow :: "string \<Rightarrow> string \<Rightarrow> js_exn \<Rightarrow> 'a io" where
  "log_and_rethrow label prefix err =
     bind_io (emit (Console_error label err)) (\<lambda>_.
     throw_io (Error (prefix @ error_message err ''Unknown error'')))"

section \<open>The environment: configuration, external services, runtime conversions\<close>

text \<open>
  The vector service's client returns matches with an id that is a string or a number, a
  numeric score and, when the match has any, metadata that is untyped JSON
  (\<open>JUndefined\<close> when absent). The language-model client returns a completion with a list
  of choices; the message and its content may be absent.
\<close>

datatype vector_id = Id_string string | Id_number jsnum

record index_result =
  result_id :: vector_id
  result_score :: jsnum
  result_metadata :: jsval

record index_info_result =
  info_vectorCount :: jsnum
  info_dimension :: jsnum

datatype chat_message = Message (message_content: "string option")
datatype choice = Choice (choice_message: "chat_message option")
datatype completion = Completion (choices: "choice list")

text \<open>
  Everything outside the program. The three environment variables; the outcome of each
  request to the vector service and to the language-model service; and the two
  conversions to string of the JavaScript runtime that are not written out here: the
  decimal form of a number, and the string form of an array or object, which a JSON value
  with an own, non-callable \<open>toString\<close> property does not have (\<open>None\<close>: the runtime
  throws a TypeError).
\<close>

record env =
  UPSTASH_VECTOR_REST_URL :: "string option"
  UPSTASH_VECTOR_REST_TOKEN :: "string option"
  GROQ_API_KEY :: "string option"
  index_query :: "jsval \<Rightarrow> nat \<Rightarrow> js_exn + index_result list"
  index_info :: "js_exn + index_info_result"
  chat_completions_create :: "chat_request \<Rightarrow> js_exn + completion"
  number_to_string :: "jsnum \<Rightarrow> string"
  object_to_string :: "jsval \<Rightarrow> string option"

text \<open>\<open>!v\<close> for an environment variable: unset or empty.\<close>

definition unset :: "string option \<Rightarrow> bool" where
  "unset v = (case v of None \<Rightarrow> True | Some s \<Rightarrow> s = [])"

text \<open>ToString, as a template literal \<open>`${v}`\<close> applies it.\<close>

fun to_string :: "env \<Rightarrow> jsval \<Rightarrow> string io" where
  "to_string E JUndefined = return_io ''undefined''"
| "to_string E JNull = return_io ''null''"
| "to_string E (JBool b) = return_io (if b then ''true'' else ''false'')"
| "to_string E (JNum n) = return_io (number_to_string E n)"
| "to_string E (JStr s) = return_io s"
| "to_string E v =
     (case object_to_string E v of
        None \<Rightarrow> throw_io (Error ''Cannot convert object to primitive value'')
      | Some s \<Rightarrow> return_io s)"

text \<open>\<open>String(id)\<close> of a string or a number.\<close>

fun String_of_id :: "env \<Rightarrow> vector_id \<Rightarrow> string" where
  "String_of_id E (Id_string s) = s"
| "String_of_id E (Id_number n) = number_to_string E n"

text \<open>
  \<open>String.prototype.trim\<close>. A \<open>char\<close> stands for a code unit below 256; the white space
  and line terminators in that range are tab, line feed, vertical tab, form feed, carriage
  return, space and no-break space.
\<close>

definition js_whitespace :: "char \<Rightarrow> bool" where
  "js_whitespace c = (c \<in> set [CHR 0x09, CHR 0x0A, CHR 0x0B, CHR 0x0C, CHR 0x0D, CHR 0x20, CHR 0xA0])"

definition trim :: "string \<Rightarrow> string" where
  "trim s = rev (dropWhile js_whitespace (rev (dropWhile js_whitespace s)))"

text \<open>\<open>xs.join(sep)\<close> on strings.\<close>

fun join :: "string \<Rightarrow> string list \<Rightarrow> string" where
  "join sep [] = []"
| "join sep [x] = x"
| "join sep (x # y # ys) = x @ sep @ join sep (y # ys)"

definition nl :: string where
  "nl = [CHR 0x0A]"

section \<open>Context Retriever (the vector module)\<close>

record QueryResult =
  qr_id :: string
  qr_score :: jsnum
  qr_metadata :: jsval

definition getVectorIndex :: "env \<Rightarrow> unit io" where
  "getVectorIndex E =
     (if unset (UPSTASH_VECTOR_REST_URL E) \<or> unset (UPSTASH_VECTOR_REST_TOKEN E)
      then throw_io (Error ''Upstash Vector credentials not configured'')
      else return_io ())"

definition queryVectors :: "env \<Rightarrow> jsval \<Rightarrow> nat \<Rightarrow> QueryResult list io" where
  "queryVectors E queryText topK =
     try_catch
       (bind_io (getVectorIndex E) (\<lambda>index.
        bind_io (net (Net_index_query queryText topK) (index_query E queryText topK)) (\<lambda>results.
        return_io (map (\<lambda>result.
          \<lparr>qr_id = String_of_id E (result_id result),
           qr_score = result_score result,
           qr_metadata = result_metadata result\<rparr>) results))))
       (log_and_rethrow ''Error querying vectors:'' ''Failed to query vectors: '')"

record Source =
  title :: jsval
  content :: jsval
  score :: jsnum

definition getRelevantContext :: "env \<Rightarrow> jsval \<Rightarrow> nat \<Rightarrow> Source list io" where
  "getRelevantContext E question topK =
     bind_io (emit (Call_getRelevantContext question topK)) (\<lambda>_.
     bind_io (queryVectors E question topK) (\<lambda>results.
     return_io
       (map (\<lambda>result.
          \<lparr>title = js_or (opt_member (qr_metadata result) ''title'') (JStr ''Information''),
           content = js_or (opt_member (qr_metadata result) ''content'') (JStr ''''),
           score = qr_score result\<rparr>)
        (filter (\<lambda>result. truthy (opt_member (qr_metadata result) ''content'')) results))))"

record VectorInfo =
  vectorCount :: jsnum
  dimension :: jsnum

text \<open>\<open>n || 0\<close> on a number.\<close>

definition num_or_zero :: "jsnum \<Rightarrow> jsnum" where
  "num_or_zero n = (if truthy (JNum n) then n else Finite 0)"

definition getVectorInfo :: "env \<Rightarrow> VectorInfo io" where
  "getVectorInfo E =
     bind_io (emit Call_getVectorInfo) (\<lambda>_.
     try_catch
       (bind_io (getVectorIndex E) (\<lambda>index.
        bind_io (net Net_index_info (index_info E)) (\<lambda>info.
        return_io
          \<lparr>vectorCount = num_or_zero (info_vectorCount info),
           dimension = num_or_zero (info_dimension info)\<rparr>)))
       (log_and_rethrow ''Error getting vector info:'' ''Failed to get vector info: ''))"

section \<open>Answer Generator and RAG Orchestrator (the actions module)\<close>

record RAGResponse =
  answer :: string
  sources :: "Source list"

definition DEFAULT_MODEL :: string where
  "DEFAULT_MODEL = ''llama-3.1-8b-instant''"

definition getGroqClient :: "env \<Rightarrow> unit io" where
  "getGroqClient E =
     (if unset (GROQ_API_KEY E)
      then throw_io (Error ''GROQ_API_KEY not configured'')
      else return_io ())"

definition system_instruction :: string where
  "system_instruction =
     ''You are an AI digital twin. Answer questions as if you are the person, speaking in first person about your background, skills, and experience.''"

text \<open>\<open>completion.choices[0]?.message?.content?.trim()\<close>; \<open>None\<close> is \<open>undefined\<close> or \<open>null\<close>.\<close>

definition completion_text :: "completion \<Rightarrow> string option" where
  "completion_text c =
     (case choices c of
        [] \<Rightarrow> None
      | ch # _ \<Rightarrow>
          (case choice_message ch of
             None \<Rightarrow> None
           | Some m \<Rightarrow>
               (case message_content m of
                  None \<Rightarrow> None
                | Some s \<Rightarrow> Some (trim s))))"

text \<open>\<open>t || dflt\<close> on a string that may be absent.\<close>

definition str_or :: "string option \<Rightarrow> string \<Rightarrow> string" where
  "str_or t dflt = (case t of None \<Rightarrow> dflt | Some s \<Rightarrow> if s = [] then dflt else s)"

definition generateResponse :: "env \<Rightarrow> string \<Rightarrow> string \<Rightarrow> string io" where
  "generateResponse E prompt mdl =
     bind_io (emit (Call_generateResponse prompt mdl)) (\<lambda>_.
     try_catch
       (bind_io (getGroqClient E) (\<lambda>client.
        let request =
          \<lparr>model = mdl,
           messages = [(''system'', system_instruction), (''user'', prompt)],
           temperature = 7 / 10,
           max_tokens = 500\<rparr>
        in
        bind_io (net (Net_chat_completions_create request) (chat_completions_create E request))
          (\<lambda>completion.
        return_io (str_or (completion_text completion) ''No response generated''))))
       (log_and_rethrow ''Error generating response:'' ''Failed to generate response: ''))"

definition no_information :: string where
  "no_information = ''I don'' @ [CHR 0x27] @ ''t have specific information about that topic.''"

text \<open>The three fixed pieces of the prompt template, around the context and the question.\<close>

definition prompt_head :: string where
  "prompt_head =
     ''Based on the following information about yourself, answer the question.'' @ nl @
     ''Speak in first person as if you are describing your own background.'' @ nl @ nl @
     ''Your Information:'' @ nl"

definition prompt_mid :: string where
  "prompt_mid = nl @ nl @ ''Question: ''"

definition prompt_tail :: string where
  "prompt_tail = nl @ nl @ ''Provide a helpful, professional response:''"

text \<open>\<open>`${source.title}: ${source.content}`\<close>\<close>

definition source_line :: "env \<Rightarrow> Source \<Rightarrow> string io" where
  "source_line E source =
     bind_io (to_string E (title source)) (\<lambda>t.
     bind_io (to_string E (content source)) (\<lambda>c.
     return_io (t @ '': '' @ c)))"

definition ragQuery :: "env \<Rightarrow> jsval \<Rightarrow> RAGResponse io" where
  "ragQuery E question =
     bind_io (emit (Call_ragQuery question)) (\<lambda>_.
     try_catch
       (bind_io (getRelevantContext E question 3) (\<lambda>srcs.
        if length srcs = 0 then
          return_io \<lparr>answer = no_information, sources = []\<rparr>
        else
          bind_io (map_io (source_line E) srcs) (\<lambda>lines.
          let context = join (nl @ nl) lines in
          bind_io (to_string E question) (\<lambda>q.
          let prompt = prompt_head @ context @ prompt_mid @ q @ prompt_tail in
          bind_io (generateResponse E prompt DEFAULT_MODEL) (\<lambda>answer.
          return_io \<lparr>answer = answer, sources = srcs\<rparr>)))))
       (log_and_rethrow ''Error in RAG query:'' ''RAG query failed: ''))"

definition chatWithDigitalTwin :: "env \<Rightarrow> jsval \<Rightarrow> string io" where
  "chatWithDigitalTwin E message =
     bind_io (ragQuery E message) (\<lambda>response. return_io (answer response))"

section \<open>Tool Protocol Server (the route module)\<close>

record rpc_error =
  code :: int
  message :: string

text \<open>The response; \<open>result\<close> and \<open>error\<close> are optional properties.\<close>

record MCPResponse =
  jsonrpc :: string
  id' :: jsval
  result :: "jsval option"
  error :: "rpc_error option"

definition TOOLS :: "jsval list" where
  "TOOLS =
     [JObj
        [(''name'', JStr ''ask_digital_twin''),
         (''description'', JStr ''Ask the digital twin a question about their professional background, skills, experience, education, or career goals.''),
         (''inputSchema'', JObj
            [(''type'', JStr ''object''),
             (''properties'', JObj
                [(''question'', JObj
                    [(''type'', JStr ''string''),
                     (''description'', JStr ''The question to ask the digital twin'')])]),
             (''required'', JArr [JStr ''question''])])],
      JObj
        [(''name'', JStr ''get_profile_info''),
         (''description'', JStr (''Get information about the digital twin'' @ [CHR 0x27] @ ''s vector database status'')),
         (''inputSchema'', JObj
            [(''type'', JStr ''object''),
             (''properties'', JObj []),
             (''required'', JArr [])])]]"

definition result_response :: "jsval \<Rightarrow> jsval \<Rightarrow> MCPResponse" where
  "result_response i r = \<lparr>jsonrpc = ''2.0'', id' = i, result = Some r, error = None\<rparr>"

definition error_response :: "jsval \<Rightarrow> int \<Rightarrow> string \<Rightarrow> MCPResponse" where
  "error_response i c m =
     \<lparr>jsonrpc = ''2.0'', id' = i, result = None, error = Some \<lparr>code = c, message = m\<rparr>\<rparr>"

text \<open>The body of the \<open>try\<close> block of \<open>handleMCPRequest\<close>: the switch on the method.\<close>

definition dispatch :: "env \<Rightarrow> jsval \<Rightarrow> jsval \<Rightarrow> jsval \<Rightarrow> MCPResponse io" where
  "dispatch E i method params =
     (if method = JStr ''initialize'' then
        return_io (result_response i
          (JObj
             [(''protocolVersion'', JStr ''2024-11-05''),
              (''serverInfo'', JObj
                 [(''name'', JStr ''digital-twin-mcp''),
                  (''version'', JStr ''1.0.0'')]),
              (''capabilities'', JObj [(''tools'', JObj [])])]))
      else if method = JStr ''tools/list'' then
        return_io (result_response i (JObj [(''tools'', JArr TOOLS)]))
      else if method = JStr ''tools/call'' then
        (let toolName = opt_member params ''name'';
             toolArgs = opt_member params ''arguments''
         in
         if toolName = JStr ''ask_digital_twin'' then
           (let question = opt_member toolArgs ''question'' in
            if \<not> truthy question then
              return_io (error_response i (- 32602) ''Missing required parameter: question'')
            else
              bind_io (ragQuery E question) (\<lambda>response.
              return_io (result_response i
                (JObj
                   [(''content'', JArr
                       [JObj [(''type'', JStr ''text''), (''text'', JStr (answer response))]]),
                    (''metadata'', JObj
                       [(''sources'', JArr
                           (map (\<lambda>s. JObj [(''title'', title s), (''relevance'', JNum (score s))])
                              (sources response)))])]))))
         else if toolName = JStr ''get_profile_info'' then
           bind_io (getVectorInfo E) (\<lambda>info.
           return_io (result_response i
             (JObj
                [(''content'', JArr
                    [JObj
                       [(''type'', JStr ''text''),
                        (''text'', JStr
                           (''Digital Twin Profile Status:'' @ nl @
                            ''- Vector Count: '' @ number_to_string E (vectorCount info) @ nl @
                            ''- Dimension: '' @ number_to_string E (dimension info)))]])])))
         else
           bind_io (to_string E toolName) (\<lambda>s.
           return_io (error_response i (- 32601) (''Unknown tool: '' @ s))))
      else
        bind_io (to_string E method) (\<lambda>s.
        return_io (error_response i (- 32601) (''Method not found: '' @ s))))"

text \<open>
  The destructuring \<open>const { id, method, params } = request\<close> stands before the \<open>try\<close>
  block; it throws a TypeError when the request is \<open>null\<close> or \<open>undefined\<close>. The
  wording of its message is the engine's; the only handler that catches it, in \<open>POST\<close>,
  does not read it.
\<close>

definition handleMCPRequest :: "env \<Rightarrow> jsval \<Rightarrow> MCPResponse io" where
  "handleMCPRequest E request =
     (if nullish request then
        throw_io (Error ''Cannot destructure property of null or undefined'')
      else
        (let i = member request ''id'';
             method = member request ''method'';
             params = member request ''params''
         in
         try_catch (dispatch E i method params)
           (\<lambda>err. return_io (error_response i (- 32603) (error_message err ''Internal error'')))))"

text \<open>
  An HTTP response made by \<open>NextResponse.json\<close>: the status (200 unless given) and the
  value that is serialised as the body.
\<close>

record http_response =
  status :: nat
  body :: jsval

definition response_json :: "MCPResponse \<Rightarrow> jsval" where
  "response_json r =
     JObj
       ([(''jsonrpc'', JStr (jsonrpc r)), (''id'', id' r)] @
        (case result r of None \<Rightarrow> [] | Some v \<Rightarrow> [(''result'', v)]) @
        (case error r of
           None \<Rightarrow> []
         | Some e \<Rightarrow>
             [(''error'', JObj
                 [(''code'', JNum (Finite (of_int (code e)))),
                  (''message'', JStr (message e))])]))"

definition parse_error_body :: jsval where
  "parse_error_body =
     JObj
       [(''jsonrpc'', JStr ''2.0''),
        (''id'', JNull),
        (''error'', JObj
           [(''code'', JNum (Finite (- 32700))),
            (''message'', JStr ''Parse error'')])]"

text \<open>
  \<open>POST\<close>, given the outcome of \<open>await request.json()\<close>: the decoded body, or the
  exception of the decoder.
\<close>

definition POST :: "env \<Rightarrow> js_exn + jsval \<Rightarrow> http_response io" where
  "POST E request_json =
     try_catch
       (bind_io (request_json, []) (\<lambda>body.
        bind_io (handleMCPRequest E body) (\<lambda>response.
        return_io \<lparr>status = 200, body = response_json response\<rparr>)))
       (\<lambda>_. return_io \<lparr>status = 400, body = parse_error_body\<rparr>)"

definition GET :: "http_response io" where
  "GET =
     return_io
       \<lparr>status = 200,
        body = JObj
          [(''status'', JStr ''ok''),
           (''server'', JStr ''digital-twin-mcp''),
           (''version'', JStr ''1.0.0''),
           (''tools'', JArr (map (\<lambda>t. member t ''name'') TOOLS))]\<rparr>"

section \<open>Observations on traces, and sample environments\<close>

text \<open>The events of the Answer Generator: its call, and its request to the service.\<close>

fun is_generation :: "event \<Rightarrow> bool" where
  "is_generation (Call_generateResponse p m) = True"
| "is_generation (Net_chat_completions_create r) = True"
| "is_generation ev = False"

text \<open>
  Two sample environments. In \<open>offline\<close> nothing is configured and every service
  fails. In \<open>online c\<close> everything is configured, the vector service knows one
  fragment, which it returns for one question only, and the language-model service
  answers every request with the completion \<open>c\<close>. No sample run prints a number.
\<close>

definition offline :: env where
  "offline =
     \<lparr>UPSTASH_VECTOR_REST_URL = None,
      UPSTASH_VECTOR_REST_TOKEN = None,
      GROQ_API_KEY = None,
      index_query = (\<lambda>q k. Inl (Error ''fetch failed'')),
      index_info = Inl (Error ''fetch failed''),
      chat_completions_create = (\<lambda>r. Inl (Error ''fetch failed'')),
      number_to_string = (\<lambda>n. ''0''),
      object_to_string = (\<lambda>v. Some ''[object Object]'')\<rparr>"

definition skills_match :: index_result where
  "skills_match =
     \<lparr>result_id = Id_string ''skills-1'',
      result_score = Finite (91 / 100),
      result_metadata = JObj
        [(''title'', JStr ''Skills''),
         (''content'', JStr ''Go, TypeScript, distributed systems'')]\<rparr>"

definition online :: "completion \<Rightarrow> env" where
  "online c =
     \<lparr>UPSTASH_VECTOR_REST_URL = Some ''https://vector.example'',
      UPSTASH_VECTOR_REST_TOKEN = Some ''token'',
      GROQ_API_KEY = Some ''key'',
      index_query = (\<lambda>q k. if q = JStr ''What are your technical skills?''
                              then Inr [skills_match] else Inr []),
      index_info = Inr \<lparr>info_vectorCount = Finite 0, info_dimension = Finite 0\<rparr>,
      chat_completions_create = (\<lambda>r. Inr c),
      number_to_string = (\<lambda>n. ''0''),
      object_to_string = (\<lambda>v. Some ''[object Object]'')\<rparr>"

text \<open>A \<open>tools/call\<close> request for \<open>ask_digital_twin\<close> with the given id and arguments.\<close>

definition ask_request :: "jsval \<Rightarrow> (string \<times> jsval) list \<Rightarrow> jsval" where
  "ask_request i args =
     JObj
       [(''jsonrpc'', JStr ''2.0''),
        (''id'', i),
        (''method'', JStr ''tools/call''),
        (''params'', JObj
           [(''name'', JStr ''ask_digital_twin''),
            (''arguments'', JObj args)])]"

text \<open>The calls of the Answer Generator in a trace, each with its prompt and model.\<close>

fun generator_call :: "event \<Rightarrow> (string \<times> string) option" where
  "generator_call (Call_generateResponse prompt mdl) = Some (prompt, mdl)"
| "generator_call ev = None"

definition generator_calls :: "event list \<Rightarrow> (string \<times> string) list" where
  "generator_calls t = List.map_filter generator_call t"

text \<open>
  A retrieved match whose title and content are strings, as \<open>VectorMetadata\<close> declares
  them, and its line in the context block.
\<close>

definition typed_source :: "string \<times> string \<times> jsnum \<Rightarrow> Source" where
  "typed_source f = (case f of (t, c, s) \<Rightarrow> \<lparr>title = JStr t, content = JStr c, score = s\<rparr>)"

definition context_line :: "string \<times> string \<times> jsnum \<Rightarrow> string" where
  "context_line f = (case f of (t, c, s) \<Rightarrow> t @ '': '' @ c)"

text \<open>
  The metadata of a match as \<open>VectorMetadata\<close> declares it, read with the source's
  tolerance for absence: the title and the content are each absent (or \<open>null\<close>) or a
  string.
\<close>

fun absent_or_string :: "jsval \<Rightarrow> bool" where
  "absent_or_string JUndefined = True"
| "absent_or_string JNull = True"
| "absent_or_string (JStr s) = True"
| "absent_or_string v = False"

definition well_typed :: "index_result \<Rightarrow> bool" where
  "well_typed r =
     (absent_or_string (member (result_metadata r) ''title'')
      \<and> absent_or_string (member (result_metadata r) ''content''))"

text \<open>The content of the match is present and is not the empty string.\<close>

definition has_content :: "index_result \<Rightarrow> bool" where
  "has_content r =
     (case member (result_metadata r) ''content'' of JStr c \<Rightarrow> c \<noteq> [] | _ \<Rightarrow> False)"

text \<open>
  The match as the retriever returns it: its content and score, and its title, or
  \<open>Information\<close> when the title is absent or empty.
\<close>

definition retrieved_match :: "index_result \<Rightarrow> Source" where
  "retrieved_match r =
     \<lparr>title =
        (case member (result_metadata r) ''title'' of
           JStr t \<Rightarrow> if t = [] then JStr ''Information'' else JStr t
         | _ \<Rightarrow> JStr ''Information''),
      content = member (result_metadata r) ''content'',
      score = result_score r\<rparr>"

text \<open>
  A sample index of five fragments in the order of their scores: the skills fragment, a
  fragment with empty content, one without title, one without metadata, one without
  content. In \<open>sample_index\<close> the vector service answers every query with the first
  \<open>topK\<close> of them.
\<close>

definition sample_matches :: "index_result list" where
  "sample_matches =
     [skills_match,
      \<lparr>result_id = Id_number (Finite 4), result_score = Finite (85 / 100),
       result_metadata = JObj [(''title'', JStr ''Empty''), (''content'', JStr [])]\<rparr>,
      \<lparr>result_id = Id_string ''untitled'', result_score = Finite (80 / 100),
       result_metadata = JObj [(''content'', JStr ''Nairobi'')]\<rparr>,
      \<lparr>result_id = Id_string ''bare'', result_score = Finite (50 / 100),
       result_metadata = JUndefined\<rparr>,
      \<lparr>result_id = Id_string ''tagged'', result_score = Finite (10 / 100),
       result_metadata = JObj [(''title'', JStr ''Tags''), (''tags'', JArr [])]\<rparr>]"

definition sample_index :: env where
  "sample_index =
     (online (Completion []))\<lparr>index_query := (\<lambda>q k. Inr (take k sample_matches))\<rparr>"

text \<open>
  The text the language-model service returned: the content of the message of the first
  choice, if there is a first choice, it has a message and the message has content.
\<close>

definition first_choice_content :: "completion \<Rightarrow> string option" where
  "first_choice_content c =
     (case choices c of
        [] \<Rightarrow> None
      | ch # _ \<Rightarrow> (case choice_message ch of None \<Rightarrow> None | Some m \<Rightarrow> message_content m))"

text \<open>
  The body of a resolved HTTP response, the \<open>result\<close> of a resolved RPC response, and
  the elements of an array.
\<close>

definition payload :: "http_response io \<Rightarrow> jsval" where
  "payload m = (case fst m of Inl e \<Rightarrow> JUndefined | Inr r \<Rightarrow> body r)"

definition result_value :: "MCPResponse io \<Rightarrow> jsval" where
  "result_value m =
     (case fst m of
        Inl e \<Rightarrow> JUndefined
      | Inr r \<Rightarrow> (case result r of None \<Rightarrow> JUndefined | Some v \<Rightarrow> v))"

fun elements :: "jsval \<Rightarrow> jsval list" where
  "elements (JArr xs) = xs"
| "elements v = []"

section \<open>Properties\<close>

subsection \<open>Sequencing and exception handling\<close>

lemma opt_member_member: "opt_member v k = member v k"
  by (cases v) (simp_all add: opt_member_def nullish_def)

lemma fst_bind_io: "fst (bind_io m f) = (case fst m of Inl e \<Rightarrow> Inl e | Inr a \<Rightarrow> fst (f a))"
  by (auto simp: bind_io_def split: prod.splits sum.splits)

lemma snd_bind_io: "snd (bind_io m f) = (case fst m of Inl e \<Rightarrow> snd m | Inr a \<Rightarrow> snd m @ snd (f a))"
  by (auto simp: bind_io_def split: prod.splits sum.splits)

lemma fst_try_catch: "fst (try_catch m h) = (case fst m of Inl e \<Rightarrow> fst (h e) | Inr a \<Rightarrow> Inr a)"
  by (auto simp: try_catch_def split: prod.splits sum.splits)

lemma snd_try_catch: "snd (try_catch m h) = (case fst m of Inl e \<Rightarrow> snd m @ snd (h e) | Inr a \<Rightarrow> snd m)"
  by (auto simp: try_catch_def split: prod.splits sum.splits)

subsection \<open>What the components throw and where they write\<close>

lemma queryVectors_no_generation: "filter is_generation (snd (queryVectors E q k)) = []"
  by (auto simp: queryVectors_def getVectorIndex_def log_and_rethrow_def snd_try_catch
      snd_bind_io fst_bind_io throw_io_def return_io_def net_def emit_def split: sum.splits)

lemma getRelevantContext_no_generation:
  "filter is_generation (snd (getRelevantContext E q k)) = []"
  using queryVectors_no_generation [of E q k]
  by (auto simp: getRelevantContext_def snd_bind_io fst_bind_io
      throw_io_def return_io_def emit_def split: sum.splits)

lemma rethrow_Error:
  assumes "fst (try_catch m (log_and_rethrow label prefix)) = Inl e"
  shows "\<exists>msg. e = Error msg"
  using assms
  by (auto simp: fst_try_catch log_and_rethrow_def fst_bind_io emit_def throw_io_def
      split: sum.splits)

lemma ragQuery_throws_Error:
  assumes "fst (ragQuery E q) = Inl e"
  shows "\<exists>msg. e = Error msg"
  using assms unfolding ragQuery_def
  by (simp add: fst_bind_io emit_def) (erule rethrow_Error)

lemma getVectorInfo_throws_Error:
  assumes "fst (getVectorInfo E) = Inl e"
  shows "\<exists>msg. e = Error msg"
  using assms unfolding getVectorInfo_def
  by (simp add: fst_bind_io emit_def) (erule rethrow_Error)

lemma to_string_throws_Error:
  assumes "fst (to_string E v) = Inl e"
  shows "\<exists>msg. e = Error msg"
  using assms
  by (cases v) (auto simp: return_io_def throw_io_def split: option.splits)

lemma dispatch_throws_Error:
  assumes "fst (dispatch E i method params) = Inl e"
  shows "\<exists>msg. e = Error msg"
  using assms
  by (auto simp: dispatch_def Let_def return_io_def fst_bind_io
      split: if_splits sum.splits
      dest: ragQuery_throws_Error getVectorInfo_throws_Error to_string_throws_Error)

lemma dispatch_returns:
  assumes "fst (dispatch E i method params) = Inr r"
  shows "id' r = i \<and> (result r \<noteq> None) = (error r = None)"
  using assms
  by (auto simp: dispatch_def Let_def return_io_def result_response_def error_response_def
      fst_bind_io split: if_splits sum.splits)

lemma fst_handleMCPRequest:
  assumes "\<not> nullish request"
  shows "fst (handleMCPRequest E request) =
     (case fst (dispatch E (member request ''id'') (member request ''method'') (member request ''params'')) of
        Inr r \<Rightarrow> Inr r
      | Inl e \<Rightarrow>
          Inr (error_response (member request ''id'') (- 32603) (error_message e ''Internal error'')))"
  using assms
  by (simp add: handleMCPRequest_def Let_def fst_try_catch return_io_def split: sum.splits)

lemma member_not_nullish: "member request k = JStr s \<Longrightarrow> \<not> nullish request"
  by (cases request) (simp_all add: nullish_def)

lemma handleMCPRequest_returns:
  assumes "\<not> nullish request"
  shows "\<exists>response. fst (handleMCPRequest E request) = Inr response"
  using assms by (simp add: fst_handleMCPRequest split: sum.splits)

lemma POST_decode_failure:
  "POST E (Inl e) = (Inr \<lparr>status = 400, body = parse_error_body\<rparr>, [])"
  by (simp add: POST_def bind_io_def try_catch_def return_io_def)

lemma POST_status_200:
  assumes "\<not> nullish b"
  shows "\<exists>response. fst (handleMCPRequest E b) = Inr response
           \<and> fst (POST E (Inr b)) = Inr \<lparr>status = 200, body = response_json response\<rparr>"
proof -
  from handleMCPRequest_returns [OF assms, of E]
  obtain response where "fst (handleMCPRequest E b) = Inr response" by blast
  then show ?thesis
    by (simp add: POST_def fst_try_catch fst_bind_io return_io_def)
qed

lemma POST_total: "\<exists>r. fst (POST E rq) = Inr r"
  by (simp add: POST_def fst_try_catch return_io_def split: sum.splits)

subsection \<open>Trimming\<close>

text \<open>
  \<open>trim\<close> removes white space at both ends and nothing else: the string is the trimmed
  string between two runs of white space, and a non-empty trimmed string neither begins
  nor ends with white space.
\<close>

lemma trim_suffix:
  "dropWhile js_whitespace s =
     trim s @ rev (takeWhile js_whitespace (rev (dropWhile js_whitespace s)))"
  unfolding trim_def
  by (metis rev_append rev_rev_ident takeWhile_dropWhile_id)

lemma trim_decomposition:
  "\<exists>pre post. s = pre @ trim s @ post \<and> list_all js_whitespace pre \<and> list_all js_whitespace post"
proof -
  let ?pre = "takeWhile js_whitespace s"
  let ?post = "rev (takeWhile js_whitespace (rev (dropWhile js_whitespace s)))"
  have "s = ?pre @ dropWhile js_whitespace s"
    by simp
  then have "s = ?pre @ trim s @ ?post"
    using trim_suffix [of s] by simp
  moreover have "list_all js_whitespace ?pre"
    by (simp add: list_all_iff) (meson set_takeWhileD)
  moreover have "list_all js_whitespace ?post"
    by (simp add: list_all_iff) (meson set_takeWhileD)
  ultimately show ?thesis by blast
qed

lemma trim_ends:
  assumes "trim s \<noteq> []"
  shows "\<not> js_whitespace (hd (trim s)) \<and> \<not> js_whitespace (last (trim s))"
proof -
  let ?u = "dropWhile js_whitespace s"
  let ?v = "dropWhile js_whitespace (rev ?u)"
  from assms have v: "?v \<noteq> []"
    unfolding trim_def by (metis rev.simps(1))
  then have u: "?u \<noteq> []"
    by (metis dropWhile.simps(1) rev.simps(1))
  have "trim s = rev ?v"
    by (simp only: trim_def)
  then have l: "last (trim s) = hd ?v"
    using v by (simp only: last_rev)
  have a: "\<not> js_whitespace (hd ?v)"
    using v by (rule hd_dropWhile)
  have b: "\<not> js_whitespace (hd ?u)"
    using u by (rule hd_dropWhile)
  have "hd ?u = hd (trim s @ rev (takeWhile js_whitespace (rev ?u)))"
    using trim_suffix [of s] by (rule arg_cong)
  with assms have "hd ?u = hd (trim s)"
    by (metis hd_append2)
  with a b l show ?thesis by (simp only: simp_thms)
qed

subsection \<open>Retrieval and the calls of the generator\<close>

lemma js_or_typed:
  "absent_or_string v \<Longrightarrow>
     js_or v (JStr d) = (case v of JStr t \<Rightarrow> if t = [] then JStr d else JStr t | _ \<Rightarrow> JStr d)"
  by (cases v) (simp_all add: js_or_def)

lemma truthy_typed:
  "absent_or_string v \<Longrightarrow> truthy v = (case v of JStr c \<Rightarrow> c \<noteq> [] | _ \<Rightarrow> False)"
  by (cases v) simp_all

lemma fst_queryVectors:
  assumes "\<not> unset (UPSTASH_VECTOR_REST_URL E)" and "\<not> unset (UPSTASH_VECTOR_REST_TOKEN E)"
    and "index_query E q k = Inr rs"
  shows "fst (queryVectors E q k) =
     Inr (map (\<lambda>r. \<lparr>qr_id = String_of_id E (result_id r), qr_score = result_score r,
                    qr_metadata = result_metadata r\<rparr>) rs)"
  using assms
  by (simp add: queryVectors_def getVectorIndex_def fst_try_catch fst_bind_io return_io_def net_def)

lemma generator_calls_append: "generator_calls (s @ t) = generator_calls s @ generator_calls t"
  by (simp add: generator_calls_def map_filter_def)

lemma generator_calls_Nil: "generator_calls [] = []"
  by (simp add: generator_calls_def map_filter_def)

lemma generator_calls_Cons:
  "generator_calls (ev # t) =
     (case generator_call ev of None \<Rightarrow> generator_calls t | Some c \<Rightarrow> c # generator_calls t)"
  by (simp add: generator_calls_def map_filter_def split: option.splits)

lemma generator_calls_log_and_rethrow:
  "generator_calls (snd (log_and_rethrow label prefix err)) = []"
  by (simp add: log_and_rethrow_def snd_bind_io emit_def throw_io_def generator_calls_Cons
      generator_calls_Nil)

lemma generator_calls_queryVectors: "generator_calls (snd (queryVectors E q k)) = []"
  by (auto simp: queryVectors_def getVectorIndex_def snd_try_catch snd_bind_io fst_bind_io
      throw_io_def return_io_def net_def generator_calls_append generator_calls_Cons
      generator_calls_Nil generator_calls_log_and_rethrow split: sum.splits)

lemma generator_calls_getRelevantContext:
  "generator_calls (snd (getRelevantContext E q k)) = []"
  using generator_calls_queryVectors [of E q k]
  by (auto simp: getRelevantContext_def snd_bind_io fst_bind_io emit_def return_io_def
      generator_calls_append generator_calls_Cons generator_calls_Nil split: sum.splits)

lemma generator_calls_generateResponse:
  "generator_calls (snd (generateResponse E prompt mdl)) = [(prompt, mdl)]"
  by (auto simp: generateResponse_def getGroqClient_def Let_def snd_try_catch snd_bind_io
      fst_bind_io emit_def throw_io_def return_io_def net_def generator_calls_append
      generator_calls_Cons generator_calls_Nil generator_calls_log_and_rethrow
      split: sum.splits)

lemma map_io_source_line:
  "map_io (source_line E) (map typed_source frags) = (Inr (map context_line frags), [])"
proof (induction frags)
  case Nil
  then show ?case by (simp add: return_io_def)
next
  case (Cons f frags)
  have "source_line E (typed_source f) = (Inr (context_line f), [])"
    by (cases f) (simp add: source_line_def typed_source_def context_line_def bind_io_def
        return_io_def)
  with Cons show ?case
    by (simp add: bind_io_def return_io_def)
qed

subsection \<open>The claims\<close>

text \<open>
  C1. Whenever the Context Retriever resolves to an empty sequence of matches, the RAG
  Orchestrator resolves to the fixed "no information" answer with an empty sequence of
  sources, and the run contains no event of the Answer Generator: neither a call of
  \<open>generateResponse\<close> nor a request to the language-model service.
\<close>

theorem ragQuery_without_matches:
  assumes "fst (getRelevantContext E question 3) = Inr []"
  shows "fst (ragQuery E question) = Inr \<lparr>answer = no_information, sources = []\<rparr>
       \<and> filter is_generation (snd (ragQuery E question)) = []"
  using assms getRelevantContext_no_generation [of E question 3]
  by (simp add: ragQuery_def fst_bind_io snd_bind_io fst_try_catch snd_try_catch
      emit_def return_io_def)

theorem ragQuery_without_matches_witness:
  "fst (getRelevantContext (online (Completion [])) (JStr ''tell me about quantum cooking'') 3) = Inr []
   \<and> fst (ragQuery (online (Completion [])) (JStr ''tell me about quantum cooking''))
       = Inr \<lparr>answer = no_information, sources = []\<rparr>
   \<and> filter is_generation (snd (ragQuery (online (Completion [])) (JStr ''tell me about quantum cooking''))) = []"
proof -
  have h: "fst (getRelevantContext (online (Completion [])) (JStr ''tell me about quantum cooking'') 3) = Inr []"
    by (simp add: getRelevantContext_def queryVectors_def getVectorIndex_def online_def unset_def
        fst_bind_io fst_try_catch return_io_def net_def emit_def)
  show ?thesis
    using h ragQuery_without_matches [OF h] by simp
qed

text \<open>
  C2. Every request that \<open>handleMCPRequest\<close> handles, that is every request value other
  than \<open>null\<close> and \<open>undefined\<close>, whatever its method and tool name and whether the
  dispatch succeeds or throws, is answered with a response that carries the request's
  \<open>id\<close> property unchanged and has exactly one of \<open>result\<close> and \<open>error\<close>.
\<close>

theorem handleMCPRequest_id_and_outcome:
  assumes "\<not> nullish request"
  shows "\<exists>response. fst (handleMCPRequest E request) = Inr response
           \<and> id' response = member request ''id''
           \<and> (result response \<noteq> None) = (error response = None)"
proof (cases "fst (dispatch E (member request ''id'') (member request ''method'') (member request ''params''))")
  case (Inl e)
  with assms show ?thesis
    by (simp add: fst_handleMCPRequest error_response_def)
next
  case (Inr r)
  with assms dispatch_returns [OF Inr] show ?thesis
    by (simp add: fst_handleMCPRequest)
qed

theorem handleMCPRequest_id_and_outcome_witness:
  "\<not> nullish (ask_request (JNum (Finite 7)) [(''question'', JStr ''Who are you?'')])
   \<and> (\<exists>response.
         fst (handleMCPRequest offline (ask_request (JNum (Finite 7)) [(''question'', JStr ''Who are you?'')]))
           = Inr response
         \<and> id' response = member (ask_request (JNum (Finite 7)) [(''question'', JStr ''Who are you?'')]) ''id''
         \<and> (result response \<noteq> None) = (error response = None))"
proof -
  have h: "\<not> nullish (ask_request (JNum (Finite 7)) [(''question'', JStr ''Who are you?'')])"
    by (simp add: nullish_def ask_request_def)
  show ?thesis
    using h handleMCPRequest_id_and_outcome [OF h, of offline] by simp
qed

text \<open>
  C3. A \<open>tools/call\<close> request that names \<open>ask_digital_twin\<close> and whose arguments have
  no \<open>question\<close> is answered with error code -32602, and the run has no event at all:
  the orchestrator is not called, and nothing is sent to the vector service or to the
  language-model service.
\<close>

theorem ask_digital_twin_missing_question:
  assumes "member request ''method'' = JStr ''tools/call''"
    and "member (member request ''params'') ''name'' = JStr ''ask_digital_twin''"
    and "member (member (member request ''params'') ''arguments'') ''question'' = JUndefined"
  shows "handleMCPRequest E request =
           (Inr \<lparr>jsonrpc = ''2.0'', id' = member request ''id'', result = None,
                 error = Some \<lparr>code = - 32602, message = ''Missing required parameter: question''\<rparr>\<rparr>,
            [])"
  using assms member_not_nullish [OF assms(1)]
  by (simp add: handleMCPRequest_def dispatch_def opt_member_member try_catch_def return_io_def
      error_response_def)

theorem ask_digital_twin_missing_question_witness:
  "member (ask_request (JStr ''a'') []) ''method'' = JStr ''tools/call''
   \<and> member (member (ask_request (JStr ''a'') []) ''params'') ''name'' = JStr ''ask_digital_twin''
   \<and> member (member (member (ask_request (JStr ''a'') []) ''params'') ''arguments'') ''question'' = JUndefined
   \<and> handleMCPRequest (online (Completion [])) (ask_request (JStr ''a'') []) =
           (Inr \<lparr>jsonrpc = ''2.0'', id' = member (ask_request (JStr ''a'') []) ''id'', result = None,
                 error = Some \<lparr>code = - 32602, message = ''Missing required parameter: question''\<rparr>\<rparr>,
            [])"
proof -
  have h1: "member (ask_request (JStr ''a'') []) ''method'' = JStr ''tools/call''"
    by (simp add: ask_request_def)
  have h2: "member (member (ask_request (JStr ''a'') []) ''params'') ''name'' = JStr ''ask_digital_twin''"
    by (simp add: ask_request_def)
  have h3: "member (member (member (ask_request (JStr ''a'') []) ''params'') ''arguments'') ''question'' = JUndefined"
    by (simp add: ask_request_def)
  show ?thesis
    using h1 h2 h3 ask_digital_twin_missing_question [OF h1 h2 h3, of "online (Completion [])"]
    by simp
qed

text \<open>
  C4. Evaluation at the body \<open>null\<close>, which decodes: the destructuring in
  \<open>handleMCPRequest\<close> throws before its \<open>try\<close> block, the \<open>catch\<close> of \<open>POST\<close>
  takes the exception, and the answer is the parse error with HTTP status 400, not a
  response with status 200. (\<open>POST_decode_failure\<close> and \<open>POST_status_200\<close> above are the
  two halves of the claim on every other input.)
\<close>

theorem POST_null_body:
  "POST E (Inr JNull) = (Inr \<lparr>status = 400, body = parse_error_body\<rparr>, [])"
  by (simp add: POST_def handleMCPRequest_def nullish_def bind_io_def try_catch_def
      return_io_def throw_io_def)

text \<open>
  C5. No exception escapes: \<open>handleMCPRequest\<close> resolves to a response for every request
  value other than \<open>null\<close> and \<open>undefined\<close>, and \<open>POST\<close> resolves to a response for
  every outcome of the decoder. Every exception raised by the dispatch inside the
  \<open>try\<close> block (by the orchestrator, and through it the retriever and the generator, by
  the vector-status query, or by a template literal) is an \<open>Error\<close>, and the response is
  then the error with code -32603, the exception's message as \<open>message\<close>, and the
  request's \<open>id\<close>.
\<close>

theorem dispatch_exceptions_are_caught:
  "(\<not> nullish request \<longrightarrow> (\<exists>response. fst (handleMCPRequest E request) = Inr response))
   \<and> (\<not> nullish request
        \<and> fst (dispatch E (member request ''id'') (member request ''method'') (member request ''params''))
            = Inl e
      \<longrightarrow> (\<exists>msg. e = Error msg
            \<and> fst (handleMCPRequest E request) =
                Inr \<lparr>jsonrpc = ''2.0'', id' = member request ''id'', result = None,
                     error = Some \<lparr>code = - 32603, message = msg\<rparr>\<rparr>))
   \<and> (\<exists>r. fst (POST E rq) = Inr r)"
proof (intro conjI impI)
  assume "\<not> nullish request"
  then show "\<exists>response. fst (handleMCPRequest E request) = Inr response"
    by (simp add: fst_handleMCPRequest split: sum.splits)
next
  assume a: "\<not> nullish request
      \<and> fst (dispatch E (member request ''id'') (member request ''method'') (member request ''params''))
          = Inl e"
  then obtain msg where "e = Error msg"
    using dispatch_throws_Error by blast
  with a show "\<exists>msg. e = Error msg
            \<and> fst (handleMCPRequest E request) =
                Inr \<lparr>jsonrpc = ''2.0'', id' = member request ''id'', result = None,
                     error = Some \<lparr>code = - 32603, message = msg\<rparr>\<rparr>"
    by (simp add: fst_handleMCPRequest error_response_def error_message_def)
next
  show "\<exists>r. fst (POST E rq) = Inr r"
    by (rule POST_total)
qed

theorem dispatch_exceptions_are_caught_witness:
  "\<not> nullish (ask_request (JNum (Finite 7)) [(''question'', JStr ''Who are you?'')])
   \<and> fst (dispatch offline
         (member (ask_request (JNum (Finite 7)) [(''question'', JStr ''Who are you?'')]) ''id'')
         (member (ask_request (JNum (Finite 7)) [(''question'', JStr ''Who are you?'')]) ''method'')
         (member (ask_request (JNum (Finite 7)) [(''question'', JStr ''Who are you?'')]) ''params''))
       = Inl (Error ''RAG query failed: Failed to query vectors: Upstash Vector credentials not configured'')
   \<and> fst (handleMCPRequest offline (ask_request (JNum (Finite 7)) [(''question'', JStr ''Who are you?'')]))
       = Inr \<lparr>jsonrpc = ''2.0'', id' = JNum (Finite 7), result = None,
              error = Some \<lparr>code = - 32603,
                message = ''RAG query failed: Failed to query vectors: Upstash Vector credentials not configured''\<rparr>\<rparr>
   \<and> (\<exists>r. fst (POST offline (Inr (ask_request (JNum (Finite 7)) [(''question'', JStr ''Who are you?'')]))) = Inr r)"
proof -
  let ?r = "ask_request (JNum (Finite 7)) [(''question'', JStr ''Who are you?'')]"
  let ?m = "''RAG query failed: Failed to query vectors: Upstash Vector credentials not configured''"
  have h1: "\<not> nullish ?r"
    by (simp add: nullish_def ask_request_def)
  have i: "member ?r ''id'' = JNum (Finite 7)"
    by (simp add: ask_request_def)
  have h2: "fst (dispatch offline (member ?r ''id'') (member ?r ''method'') (member ?r ''params''))
              = Inl (Error ?m)"
    by code_simp
  note c = dispatch_exceptions_are_caught
    [of ?r offline "Error ?m" "Inr ?r", unfolded i]
  show ?thesis
    using h1 h2 c by (auto simp: i)
qed

text \<open>
  C6. When retrieval for a question returns at least one match (titles and contents being
  strings, as declared), the Answer Generator is called exactly once, with the default
  model and with the prompt made of the fixed head, the context block, the fixed middle
  part, the literal question and the fixed tail. The context block is the lines
  \<open>title: content\<close> of the matches, one per match, in the order of retrieval, joined by
  two line feeds, that is separated by a blank line.
\<close>

theorem ragQuery_prompt:
  assumes "fst (getRelevantContext E (JStr question) 3) = Inr (map typed_source frags)"
    and "frags \<noteq> []"
  shows "generator_calls (snd (ragQuery E (JStr question))) =
           [(prompt_head @ join (nl @ nl) (map context_line frags) @ prompt_mid @ question
               @ prompt_tail,
             DEFAULT_MODEL)]"
  using assms generator_calls_getRelevantContext [of E "JStr question" 3]
  by (auto simp: ragQuery_def map_io_source_line Let_def snd_try_catch snd_bind_io fst_bind_io
      emit_def return_io_def generator_calls_append generator_calls_Cons generator_calls_Nil
      generator_calls_log_and_rethrow generator_calls_generateResponse split: sum.splits)

theorem ragQuery_prompt_witness:
  "fst (getRelevantContext sample_index (JStr ''Where do you live?'') 3) =
     Inr (map typed_source
       [(''Skills'', ''Go, TypeScript, distributed systems'', Finite (91 / 100)),
        (''Information'', ''Nairobi'', Finite (80 / 100))])
   \<and> [(''Skills'', ''Go, TypeScript, distributed systems'', Finite (91 / 100)),
        (''Information'', ''Nairobi'', Finite (80 / 100))] \<noteq> []
   \<and> generator_calls (snd (ragQuery sample_index (JStr ''Where do you live?''))) =
       [(prompt_head
           @ ''Skills: Go, TypeScript, distributed systems'' @ nl @ nl @ ''Information: Nairobi''
           @ prompt_mid @ ''Where do you live?'' @ prompt_tail,
         DEFAULT_MODEL)]"
proof -
  let ?frags = "[(''Skills'', ''Go, TypeScript, distributed systems'', Finite (91 / 100)),
        (''Information'', ''Nairobi'', Finite (80 / 100))]"
  have h1: "fst (getRelevantContext sample_index (JStr ''Where do you live?'') 3) =
     Inr (map typed_source ?frags)"
    by code_simp
  have h2: "?frags \<noteq> []"
    by simp
  have v: "join (nl @ nl) (map context_line ?frags) =
      ''Skills: Go, TypeScript, distributed systems'' @ nl @ nl @ ''Information: Nairobi''"
    by (simp add: context_line_def)
  show ?thesis
    using h1 h2 ragQuery_prompt [OF h1 h2, unfolded v]
    by (simp only: simp_thms append_assoc)
qed

text \<open>
  C7. When the vector service answers a query with a sequence of matches whose metadata is
  typed as declared, the Context Retriever returns exactly the matches whose content is
  present and not empty, each with its content and score, in the order of the service.
\<close>

theorem getRelevantContext_matches:
  assumes "\<not> unset (UPSTASH_VECTOR_REST_URL E)" and "\<not> unset (UPSTASH_VECTOR_REST_TOKEN E)"
    and "index_query E question topK = Inr rs"
    and "list_all well_typed rs"
  shows "fst (getRelevantContext E question topK) = Inr (map retrieved_match (filter has_content rs))"
proof -
  have t: "\<forall>r \<in> set rs. well_typed r"
    using assms(4) by (simp add: list_all_iff)
  have f: "filter (\<lambda>r. truthy (member (result_metadata r) ''content'')) rs = filter has_content rs"
    using t by (intro filter_cong) (simp_all add: has_content_def well_typed_def truthy_typed)
  have m: "map (\<lambda>r. \<lparr>title = js_or (member (result_metadata r) ''title'') (JStr ''Information''),
                      content = js_or (member (result_metadata r) ''content'') (JStr []),
                      score = result_score r\<rparr>) (filter has_content rs)
           = map retrieved_match (filter has_content rs)"
    using t
    by (intro map_cong)
       (auto simp: retrieved_match_def has_content_def well_typed_def js_or_typed js_or_def
          split: jsval.splits)
  show ?thesis
    using fst_queryVectors [OF assms(1,2,3)] f m
    by (simp add: getRelevantContext_def fst_bind_io emit_def return_io_def opt_member_member
        filter_map comp_def)
qed

theorem getRelevantContext_matches_witness:
  "\<not> unset (UPSTASH_VECTOR_REST_URL sample_index)
   \<and> \<not> unset (UPSTASH_VECTOR_REST_TOKEN sample_index)
   \<and> index_query sample_index (JStr ''Where do you live?'') 5 = Inr sample_matches
   \<and> list_all well_typed sample_matches
   \<and> fst (getRelevantContext sample_index (JStr ''Where do you live?'') 5) =
       Inr [\<lparr>title = JStr ''Skills'', content = JStr ''Go, TypeScript, distributed systems'',
             score = Finite (91 / 100)\<rparr>,
            \<lparr>title = JStr ''Information'', content = JStr ''Nairobi'', score = Finite (80 / 100)\<rparr>]"
proof -
  have h1: "\<not> unset (UPSTASH_VECTOR_REST_URL sample_index)"
    by (simp add: sample_index_def online_def unset_def)
  have h2: "\<not> unset (UPSTASH_VECTOR_REST_TOKEN sample_index)"
    by (simp add: sample_index_def online_def unset_def)
  have h3: "index_query sample_index (JStr ''Where do you live?'') 5 = Inr sample_matches"
    by (simp add: sample_index_def sample_matches_def)
  have h4: "list_all well_typed sample_matches"
    by (simp add: sample_matches_def skills_match_def well_typed_def)
  have v: "map retrieved_match (filter has_content sample_matches) =
       [\<lparr>title = JStr ''Skills'', content = JStr ''Go, TypeScript, distributed systems'',
             score = Finite (91 / 100)\<rparr>,
            \<lparr>title = JStr ''Information'', content = JStr ''Nairobi'', score = Finite (80 / 100)\<rparr>]"
    by (simp add: sample_matches_def skills_match_def has_content_def retrieved_match_def)
  show ?thesis
    using h1 h2 h3 h4 getRelevantContext_matches [OF h1 h2 h3 h4]
    by (simp only: v simp_thms)
qed

text \<open>
  C8, as amended. When the language-model service answers, the Answer Generator returns
  normally: the completion text with the white space at both ends removed when that is not
  empty, and the fixed sentinel \<open>No response generated\<close> when the service returned no
  text or a text that is empty after trimming.
\<close>

theorem generateResponse_text:
  assumes "\<not> unset (GROQ_API_KEY E)"
    and "chat_completions_create E
           \<lparr>model = mdl,
            messages = [(''system'', system_instruction), (''user'', prompt)],
            temperature = 7 / 10,
            max_tokens = 500\<rparr> = Inr c"
  shows "fst (generateResponse E prompt mdl) =
           Inr (case first_choice_content c of
                  None \<Rightarrow> ''No response generated''
                | Some s \<Rightarrow> if trim s = [] then ''No response generated'' else trim s)"
  using assms
  by (simp add: generateResponse_def getGroqClient_def Let_def fst_try_catch fst_bind_io
      emit_def return_io_def net_def completion_text_def first_choice_content_def str_or_def
      split: list.splits option.splits)

theorem generateResponse_text_witness:
  "\<not> unset (GROQ_API_KEY (online (Completion [Choice (Some (Message (Some ''  I build services in Go. '')))])))
   \<and> chat_completions_create (online (Completion [Choice (Some (Message (Some ''  I build services in Go. '')))]))
           \<lparr>model = DEFAULT_MODEL,
            messages = [(''system'', system_instruction), (''user'', ''Who are you?'')],
            temperature = 7 / 10,
            max_tokens = 500\<rparr>
       = Inr (Completion [Choice (Some (Message (Some ''  I build services in Go. '')))])
   \<and> fst (generateResponse (online (Completion [Choice (Some (Message (Some ''  I build services in Go. '')))]))
          ''Who are you?'' DEFAULT_MODEL)
       = Inr ''I build services in Go.''"
proof -
  let ?c = "Completion [Choice (Some (Message (Some ''  I build services in Go. '')))]"
  have h1: "\<not> unset (GROQ_API_KEY (online ?c))"
    by (simp add: online_def unset_def)
  have h2: "chat_completions_create (online ?c)
           \<lparr>model = DEFAULT_MODEL,
            messages = [(''system'', system_instruction), (''user'', ''Who are you?'')],
            temperature = 7 / 10,
            max_tokens = 500\<rparr> = Inr ?c"
    by (simp add: online_def)
  have v: "(case first_choice_content ?c of
                  None \<Rightarrow> ''No response generated''
                | Some s \<Rightarrow> if trim s = [] then ''No response generated'' else trim s)
           = ''I build services in Go.''"
    by (simp add: first_choice_content_def trim_def js_whitespace_def)
  show ?thesis
    using h1 h2 generateResponse_text [OF h1 h2, unfolded v]
    by (simp only: simp_thms)
qed

text \<open>
  C8 as stated fails on a completion that is a single space: its trimmed text is the empty
  string, and the generator returns the sentinel instead.
\<close>

theorem generateResponse_blank_text:
  "fst (generateResponse (online (Completion [Choice (Some (Message (Some '' '')))]))
          ''Who are you?'' DEFAULT_MODEL) = Inr ''No response generated''
   \<and> fst (generateResponse (online (Completion [Choice (Some (Message (Some '' '')))]))
          ''Who are you?'' DEFAULT_MODEL) \<noteq> Inr (trim '' '')"
  by (simp add: generateResponse_def getGroqClient_def Let_def fst_try_catch fst_bind_io
      emit_def return_io_def net_def completion_text_def str_or_def online_def unset_def
      trim_def js_whitespace_def)

text \<open>
  C9, as amended. \<open>GET\<close> always resolves, with status 200 and no event, to the payload
  \<open>{status, server, version, tools}\<close>, in which \<open>server\<close> and \<open>version\<close> are the name
  and the version of the server, the same as \<open>serverInfo\<close> of \<open>initialize\<close> reports, and
  \<open>tools\<close> is the list of the names of the tools that \<open>tools/list\<close> returns.
\<close>

theorem GET_payload:
  "GET = (Inr \<lparr>status = 200,
               body = JObj
                 [(''status'', JStr ''ok''),
                  (''server'', JStr ''digital-twin-mcp''),
                  (''version'', JStr ''1.0.0''),
                  (''tools'', JArr [JStr ''ask_digital_twin'', JStr ''get_profile_info''])]\<rparr>,
          [])
   \<and> member (payload GET) ''server'' =
       member (member (result_value (dispatch E i (JStr ''initialize'') p)) ''serverInfo'') ''name''
   \<and> member (payload GET) ''version'' =
       member (member (result_value (dispatch E i (JStr ''initialize'') p)) ''serverInfo'') ''version''
   \<and> elements (member (payload GET) ''tools'') =
       map (\<lambda>t. member t ''name'')
         (elements (member (result_value (dispatch E i' (JStr ''tools/list'') p')) ''tools''))"
  by (simp add: GET_def TOOLS_def payload_def result_value_def dispatch_def return_io_def
      result_response_def)

text \<open>
  C9 as stated fails: the version in the payload is the server's version \<open>1.0.0\<close>, not
  the protocol version \<open>2024-11-05\<close> that \<open>initialize\<close> reports.
\<close>

theorem GET_version_is_not_protocolVersion:
  "member (payload GET) ''version'' = JStr ''1.0.0''
   \<and> member (result_value (dispatch offline JNull (JStr ''initialize'') JUndefined)) ''protocolVersion''
       = JStr ''2024-11-05''
   \<and> member (payload GET) ''version''
       \<noteq> member (result_value (dispatch offline JNull (JStr ''initialize'') JUndefined)) ''protocolVersion''"
  by (simp add: GET_def payload_def result_value_def dispatch_def return_io_def
      result_response_def)

text \<open>
  C10. A \<open>tools/call\<close> request that names \<open>ask_digital_twin\<close> and whose \<open>question\<close>
  is present but falsy (the empty string, \<open>null\<close>, \<open>false\<close> or \<open>0\<close>) is answered
  with the error of code -32602 and no event at all, and the whole outcome equals that of a
  request with the same id whose arguments have no \<open>question\<close>.
\<close>

theorem ask_digital_twin_falsy_question:
  assumes "member request ''method'' = JStr ''tools/call''"
    and "member (member request ''params'') ''name'' = JStr ''ask_digital_twin''"
    and "member (member (member request ''params'') ''arguments'') ''question''
           \<in> {JStr [], JNull, JBool False, JNum (Finite 0)}"
    and "member request' ''method'' = JStr ''tools/call''"
    and "member (member request' ''params'') ''name'' = JStr ''ask_digital_twin''"
    and "member (member (member request' ''params'') ''arguments'') ''question'' = JUndefined"
    and "member request' ''id'' = member request ''id''"
  shows "handleMCPRequest E request =
           (Inr \<lparr>jsonrpc = ''2.0'', id' = member request ''id'', result = None,
                 error = Some \<lparr>code = - 32602, message = ''Missing required parameter: question''\<rparr>\<rparr>,
            [])
       \<and> handleMCPRequest E request = handleMCPRequest E request'"
proof -
  have "\<not> truthy (member (member (member request ''params'') ''arguments'') ''question'')"
    using assms(3) by auto
  then have a: "handleMCPRequest E request =
           (Inr \<lparr>jsonrpc = ''2.0'', id' = member request ''id'', result = None,
                 error = Some \<lparr>code = - 32602, message = ''Missing required parameter: question''\<rparr>\<rparr>,
            [])"
    using assms(1,2) member_not_nullish [OF assms(1)]
    by (simp add: handleMCPRequest_def dispatch_def opt_member_member try_catch_def return_io_def
        error_response_def)
  have b: "handleMCPRequest E request' =
           (Inr \<lparr>jsonrpc = ''2.0'', id' = member request ''id'', result = None,
                 error = Some \<lparr>code = - 32602, message = ''Missing required parameter: question''\<rparr>\<rparr>,
            [])"
    using assms(4,5,6,7) member_not_nullish [OF assms(4)]
    by (simp add: handleMCPRequest_def dispatch_def opt_member_member try_catch_def return_io_def
        error_response_def)
  from a b show ?thesis by simp
qed

theorem ask_digital_twin_falsy_question_witness:
  "member (ask_request (JNum (Finite 7)) [(''question'', JStr [])]) ''method'' = JStr ''tools/call''
   \<and> member (member (ask_request (JNum (Finite 7)) [(''question'', JStr [])]) ''params'') ''name''
       = JStr ''ask_digital_twin''
   \<and> member (member (member (ask_request (JNum (Finite 7)) [(''question'', JStr [])]) ''params'')
         ''arguments'') ''question'' \<in> {JStr [], JNull, JBool False, JNum (Finite 0)}
   \<and> member (ask_request (JNum (Finite 7)) []) ''method'' = JStr ''tools/call''
   \<and> member (member (ask_request (JNum (Finite 7)) []) ''params'') ''name'' = JStr ''ask_digital_twin''
   \<and> member (member (member (ask_request (JNum (Finite 7)) []) ''params'') ''arguments'') ''question''
       = JUndefined
   \<and> member (ask_request (JNum (Finite 7)) []) ''id''
       = member (ask_request (JNum (Finite 7)) [(''question'', JStr [])]) ''id''
   \<and> handleMCPRequest (online (Completion [])) (ask_request (JNum (Finite 7)) [(''question'', JStr [])]) =
         (Inr \<lparr>jsonrpc = ''2.0'', id' = JNum (Finite 7), result = None,
               error = Some \<lparr>code = - 32602, message = ''Missing required parameter: question''\<rparr>\<rparr>,
          [])
   \<and> handleMCPRequest (online (Completion [])) (ask_request (JNum (Finite 7)) [(''question'', JStr [])])
       = handleMCPRequest (online (Completion [])) (ask_request (JNum (Finite 7)) [])"
proof -
  let ?r = "ask_request (JNum (Finite 7)) [(''question'', JStr [])]"
  let ?r' = "ask_request (JNum (Finite 7)) []"
  have h1: "member ?r ''method'' = JStr ''tools/call''"
    by (simp add: ask_request_def)
  have h2: "member (member ?r ''params'') ''name'' = JStr ''ask_digital_twin''"
    by (simp add: ask_request_def)
  have h3: "member (member (member ?r ''params'') ''arguments'') ''question''
              \<in> {JStr [], JNull, JBool False, JNum (Finite 0)}"
    by (simp add: ask_request_def)
  have h4: "member ?r' ''method'' = JStr ''tools/call''"
    by (simp add: ask_request_def)
  have h5: "member (member ?r' ''params'') ''name'' = JStr ''ask_digital_twin''"
    by (simp add: ask_request_def)
  have h6: "member (member (member ?r' ''params'') ''arguments'') ''question'' = JUndefined"
    by (simp add: ask_request_def)
  have h7: "member ?r' ''id'' = member ?r ''id''"
    by (simp add: ask_request_def)
  have i: "member ?r ''id'' = JNum (Finite 7)"
    by (simp add: ask_request_def)
  note c = ask_digital_twin_falsy_question [OF h1 h2 h3 h4 h5 h6 h7, of "online (Completion [])",
      unfolded i]
  show ?thesis
    using h1 h2 h3 h4 h5 h6 h7 c by blast
qed

end
